theory Spec2Isabelle
  imports Main
begin

section \<open>The task entry point of robot.py\<close>

text \<open>
  The repository is one Python function:
  \<^verbatim>\<open>
  @task
  def my_task(name, age):
      print(f"Hello {name} you are {age} years old")
      print("--------------------------------")
      print(f"Key from Env: {os.getenv('API_KEY')}")
      print("--------------------------------")
  \<close>
  Its effects are four calls of \<open>print\<close> and one call of \<open>os.getenv\<close>. The model threads
  a world through the body: the process environment and the trace of the input/output
  calls made so far. Building an f-string can raise, so the result of the body is an
  error or a value. The decorator only registers the function with the task runner and
  is not part of the body.
\<close>

subsection \<open>Values and their rendering in a replacement field\<close>

text \<open>
  The values the parameters range over: text, integers, booleans and \<open>None\<close>.
  \<open>os.getenv\<close> returns text or \<open>None\<close>, so its result is a value of the same type.
\<close>

datatype pyval = PyStr string | PyInt int | PyBool bool | PyNone

datatype error = ValueError

text \<open>The decimal digits of a natural number, most significant first, as \<open>str\<close> writes them.\<close>

fun digits :: "nat \<Rightarrow> string" where
  "digits n =
     (if n < 10 then [''0123456789'' ! n]
      else digits (n div 10) @ [''0123456789'' ! (n mod 10)])"

declare digits.simps [simp del]

text \<open>
  The interpreter refuses to write an integer of more than \<open>max_str_digits\<close> decimal
  digits as text and raises \<open>ValueError\<close> instead; 4300 is its default limit
  (\<open>sys.int_info.default_max_str_digits\<close>). The sign does not count. An integer has more
  than \<open>k\<close> digits exactly when its absolute value is at least \<open>10 ^ k\<close>.
\<close>

definition max_str_digits :: nat where
  "max_str_digits = 4300"

definition str_of_int :: "int \<Rightarrow> error + string" where
  "str_of_int i =
     (if 10 ^ max_str_digits \<le> \<bar>i\<bar> then Inl ValueError
      else Inr (if i < 0 then CHR ''-'' # digits (nat (- i)) else digits (nat i)))"

text \<open>
  A replacement field \<open>{x}\<close> of an f-string with no conversion and no format specification
  is \<open>format(x, "")\<close>: text is inserted as it is, the other values as \<open>str\<close> writes them.
\<close>

fun format_value :: "pyval \<Rightarrow> error + string" where
  "format_value (PyStr s) = Inr s"
| "format_value (PyInt i) = str_of_int i"
| "format_value (PyBool b) = Inr (if b then ''True'' else ''False'')"
| "format_value PyNone = Inr ''None''"

subsection \<open>The world: environment and trace of calls\<close>

datatype event = Print string | Getenv string

record world =
  environ :: "(string \<times> string) list"
  trace :: "event list"

text \<open>\<open>print(s)\<close> writes \<open>s\<close> and a line feed to standard output and returns \<open>None\<close>.\<close>

definition print :: "string \<Rightarrow> 'a world_scheme \<Rightarrow> pyval \<times> 'a world_scheme" where
  "print s w = (PyNone, w\<lparr>trace := trace w @ [Print s]\<rparr>)"

text \<open>\<open>os.getenv(key)\<close> is the value of the variable, or \<open>None\<close> when it is not set.\<close>

definition os_getenv :: "string \<Rightarrow> 'a world_scheme \<Rightarrow> pyval \<times> 'a world_scheme" where
  "os_getenv key w =
     ((case map_of (environ w) key of None \<Rightarrow> PyNone | Some v \<Rightarrow> PyStr v),
      w\<lparr>trace := trace w @ [Getenv key]\<rparr>)"

text \<open>
  The body, statement by statement. An f-string is built before the \<open>print\<close> that takes
  it is called, its fields from left to right: when a field raises, the exception leaves
  the body at once, with the world as it is at that point. So the environment is read
  after the second \<open>print\<close> and before the third. A body that ends without \<open>return\<close>
  returns \<open>None\<close>.
\<close>

definition my_task ::
  "pyval \<Rightarrow> pyval \<Rightarrow> 'a world_scheme \<Rightarrow> (error + pyval) \<times> 'a world_scheme" where
  "my_task name age w0 =
     (case format_value name of
        Inl e \<Rightarrow> (Inl e, w0)
      | Inr n \<Rightarrow>
     (case format_value age of
        Inl e \<Rightarrow> (Inl e, w0)
      | Inr a \<Rightarrow>
     (let (_, w1) = print (''Hello '' @ n @ '' you are '' @ a @ '' years old'') w0;
          (_, w2) = print ''--------------------------------'' w1;
          (key, w3) = os_getenv ''API_KEY'' w2
      in (case format_value key of
            Inl e \<Rightarrow> (Inl e, w3)
          | Inr k \<Rightarrow>
         (let (_, w4) = print (''Key from Env: '' @ k) w3;
              (_, w5) = print ''--------------------------------'' w4
          in (Inr PyNone, w5))))))"

subsection \<open>Observing a run\<close>

definition newline :: char where
  "newline = CHR 0x0A"

text \<open>The texts printed, in order, and the environment variables read, in order.\<close>

fun printed :: "event list \<Rightarrow> string list" where
  "printed [] = []"
| "printed (Print s # es) = s # printed es"
| "printed (Getenv k # es) = printed es"

fun env_reads :: "event list \<Rightarrow> string list" where
  "env_reads [] = []"
| "env_reads (Print s # es) = env_reads es"
| "env_reads (Getenv k # es) = k # env_reads es"

text \<open>The characters that reach standard output: each printed text, then a line feed.\<close>

fun stdout_text :: "event list \<Rightarrow> string" where
  "stdout_text [] = []"
| "stdout_text (Print s # es) = s @ newline # stdout_text es"
| "stdout_text (Getenv k # es) = stdout_text es"

text \<open>
  The lines of a text: the maximal runs of characters other than the line feed, each
  ended by a line feed (the last one possibly by the end of the text).
\<close>

fun lines_of :: "string \<Rightarrow> string list" where
  "lines_of [] = []"
| "lines_of (c # cs) =
     (if c = newline then [] # lines_of cs
      else (case lines_of cs of [] \<Rightarrow> [[c]] | l # ls \<Rightarrow> (c # l) # ls))"

definition single_line :: "string \<Rightarrow> bool" where
  "single_line s = (newline \<notin> set s)"

text \<open>The calls made by one invocation, and what it sends to standard output.\<close>

definition task_events :: "pyval \<Rightarrow> pyval \<Rightarrow> 'a world_scheme \<Rightarrow> event list" where
  "task_events name age w = drop (length (trace w)) (trace (snd (my_task name age w)))"

definition task_output :: "pyval \<Rightarrow> pyval \<Rightarrow> 'a world_scheme \<Rightarrow> string" where
  "task_output name age w = stdout_text (task_events name age w)"

text \<open>
  The values that a replacement field can render: every value but an integer of more
  than \<open>max_str_digits\<close> digits. \<open>text_of\<close> is the rendering (empty when there is none).
\<close>

fun renderable :: "pyval \<Rightarrow> bool" where
  "renderable (PyInt i) = (\<bar>i\<bar> < 10 ^ max_str_digits)"
| "renderable (PyStr s) = True"
| "renderable (PyBool b) = True"
| "renderable PyNone = True"

definition text_of :: "pyval \<Rightarrow> string" where
  "text_of v = (case format_value v of Inl e \<Rightarrow> [] | Inr s \<Rightarrow> s)"

text \<open>What \<open>os.getenv('API_KEY')\<close> returns in a world, and its rendering.\<close>

definition api_key :: "'a world_scheme \<Rightarrow> pyval" where
  "api_key w = fst (os_getenv ''API_KEY'' w)"

definition api_key_text :: "'a world_scheme \<Rightarrow> string" where
  "api_key_text w = text_of (api_key w)"

text \<open>The three texts the body builds, from the renderings of their fields.\<close>

definition greeting :: "string \<Rightarrow> string \<Rightarrow> string" where
  "greeting n a = ''Hello '' @ n @ '' you are '' @ a @ '' years old''"

definition separator :: string where
  "separator = replicate 32 (CHR ''-'')"

definition env_line :: "string \<Rightarrow> string" where
  "env_line k = ''Key from Env: '' @ k"

section \<open>Basic facts\<close>

subsection \<open>Rendering\<close>

lemma digits_nonempty: "digits n \<noteq> []"
  by (subst digits.simps) simp

lemma length_digits: "0 < k \<Longrightarrow> (length (digits n) \<le> k) = (n < 10 ^ k)"
proof (induction n arbitrary: k rule: digits.induct)
  case (1 n)
  show ?case
  proof (cases "n < 10")
    case True
    have "(10::nat) ^ 1 \<le> 10 ^ k"
      using 1(2) by (intro power_increasing) simp_all
    with True show ?thesis
      using 1(2) by (simp add: digits.simps [of n])
  next
    case False
    show ?thesis
    proof (cases "k = 1")
      case True
      have "0 < length (digits (n div 10))"
        using digits_nonempty [of "n div 10"] by simp
      with False True show ?thesis
        by (simp add: digits.simps [of n])
    next
      case k: False
      with 1(2) obtain j where j: "k = Suc j" "0 < j"
        by (cases k) auto
      have "(length (digits (n div 10)) \<le> j) = (n div 10 < 10 ^ j)"
        using 1(1) [OF False j(2)] .
      moreover have "(n div 10 < 10 ^ j) = (n < 10 ^ Suc j)"
        by (simp add: div_less_iff_less_mult mult.commute)
      ultimately show ?thesis
        using False by (simp add: digits.simps [of n] j(1))
    qed
  qed
qed

lemma str_of_int_raises: "str_of_int (10 ^ max_str_digits) = Inl ValueError"
  by (simp add: str_of_int_def)

lemma small_below_limit: "\<bar>i\<bar> < 100 \<Longrightarrow> \<bar>i :: int\<bar> < 10 ^ max_str_digits"
proof -
  assume "\<bar>i\<bar> < 100"
  moreover have "(10::int) ^ 2 \<le> 10 ^ max_str_digits"
    by (intro power_increasing) (simp_all add: max_str_digits_def)
  ultimately show ?thesis
    by simp
qed

lemma str_of_int_30: "str_of_int 30 = Inr ''30''"
proof -
  have "\<bar>30 :: int\<bar> < 10 ^ max_str_digits"
    by (rule small_below_limit) simp
  moreover have "digits 30 = ''30''"
    by code_simp
  ultimately show ?thesis
    by (simp add: str_of_int_def)
qed

lemma str_of_int_0: "str_of_int 0 = Inr ''0''"
proof -
  have "\<not> (10::int) ^ max_str_digits \<le> 0"
    by (simp add: not_le)
  moreover have "digits 0 = ''0''"
    by code_simp
  ultimately show ?thesis
    by (simp add: str_of_int_def)
qed

lemma renderable_format: "renderable v \<Longrightarrow> format_value v = Inr (text_of v)"
  by (cases v) (auto simp: text_of_def str_of_int_def)

lemma not_renderable_format: "\<not> renderable v \<Longrightarrow> format_value v = Inl ValueError"
  by (cases v) (auto simp: str_of_int_def)

lemma format_renderable: "format_value v = Inr s \<Longrightarrow> renderable v \<and> text_of v = s"
  by (cases v) (auto simp: text_of_def str_of_int_def split: if_splits)

lemma format_api_key: "format_value (api_key w) = Inr (api_key_text w)"
  by (simp add: api_key_def api_key_text_def os_getenv_def text_of_def split: option.split)

lemma api_key_set: "map_of (environ w) ''API_KEY'' = Some v \<Longrightarrow> api_key w = PyStr v"
  by (simp add: api_key_def os_getenv_def)

lemma api_key_unset: "map_of (environ w) ''API_KEY'' = None \<Longrightarrow> api_key w = PyNone"
  by (simp add: api_key_def os_getenv_def)

lemma api_key_text_set:
  "map_of (environ w) ''API_KEY'' = Some v \<Longrightarrow> api_key_text w = v"
  by (simp add: api_key_text_def api_key_set text_of_def)

lemma api_key_text_unset:
  "map_of (environ w) ''API_KEY'' = None \<Longrightarrow> api_key_text w = ''None''"
  by (simp add: api_key_text_def api_key_unset text_of_def)

subsection \<open>The calls of one invocation\<close>

lemma separator_literal: "''--------------------------------'' = separator"
  by (simp add: separator_def eval_nat_numeral)

lemma my_task_run:
  assumes "format_value name = Inr n" "format_value age = Inr a"
  shows "my_task name age w =
     (Inr PyNone, w\<lparr>trace := trace w @ [Print (greeting n a), Print separator,
        Getenv ''API_KEY'', Print (env_line (api_key_text w)), Print separator]\<rparr>)"
proof -
  have "format_value (fst (os_getenv ''API_KEY'' v)) = Inr (api_key_text w)"
    if "environ v = environ w" for v :: "'a world_scheme"
    using that format_api_key [of w] by (simp add: api_key_def os_getenv_def)
  then show ?thesis
    using assms
    by (simp add: my_task_def print_def os_getenv_def greeting_def env_line_def
        separator_literal [symmetric])
qed

lemma my_task_raises:
  assumes "\<not> (renderable name \<and> renderable age)"
  shows "my_task name age w = (Inl ValueError, w)"
proof (cases "renderable name")
  case False
  then show ?thesis
    by (simp add: my_task_def not_renderable_format)
next
  case True
  with assms have "\<not> renderable age"
    by simp
  with True show ?thesis
    by (simp add: my_task_def not_renderable_format renderable_format)
qed

lemma task_events_eq:
  assumes "format_value name = Inr n" "format_value age = Inr a"
  shows "task_events name age w =
     [Print (greeting n a), Print separator, Getenv ''API_KEY'',
      Print (env_line (api_key_text w)), Print separator]"
  by (simp add: task_events_def my_task_run [OF assms])

lemma task_events_raises:
  "\<not> (renderable name \<and> renderable age) \<Longrightarrow> task_events name age w = []"
  by (simp add: task_events_def my_task_raises)

lemma task_output_eq:
  assumes "format_value name = Inr n" "format_value age = Inr a"
  shows "task_output name age w =
     greeting n a @ newline # separator @ newline #
     env_line (api_key_text w) @ newline # separator @ [newline]"
  by (simp add: task_output_def task_events_eq [OF assms])

lemma printed_task_events:
  assumes "format_value name = Inr n" "format_value age = Inr a"
  shows "printed (task_events name age w) =
     [greeting n a, separator, env_line (api_key_text w), separator]"
  by (simp add: task_events_eq [OF assms])

lemma greeting_not_separator: "greeting n a \<noteq> separator"
  by (simp add: greeting_def separator_literal [symmetric])

lemma env_line_not_separator: "env_line k \<noteq> separator"
  by (simp add: env_line_def separator_literal [symmetric])

subsection \<open>Lines\<close>

lemma lines_of_line:
  "single_line l \<Longrightarrow> lines_of (l @ newline # rest) = l # lines_of rest"
  by (induction l) (auto simp: single_line_def)

lemma lines_of_ended_nonempty: "lines_of (t @ [newline]) \<noteq> []"
  by (induction t) (auto split: list.split)

lemma lines_of_append:
  "lines_of (t @ newline # rest) = lines_of (t @ [newline]) @ lines_of rest"
proof (induction t)
  case Nil
  show ?case by simp
next
  case (Cons c t)
  obtain l ls where "lines_of (t @ [newline]) = l # ls"
    using lines_of_ended_nonempty [of t] by (cases "lines_of (t @ [newline])") auto
  with Cons show ?case
    by simp
qed

lemma digit_not_newline: "k < 10 \<Longrightarrow> ''0123456789'' ! k \<noteq> newline"
proof -
  assume "k < 10"
  then have "''0123456789'' ! k \<in> set ''0123456789''"
    by (intro nth_mem) simp
  then show ?thesis
    by (auto simp: newline_def)
qed

lemma single_line_digits: "single_line (digits n)"
proof (induction n rule: digits.induct)
  case (1 n)
  show ?case
  proof (cases "n < 10")
    case True
    then show ?thesis
      using digit_not_newline [of n] by (simp add: digits.simps [of n] single_line_def)
  next
    case False
    then show ?thesis
      using 1 digit_not_newline [of "n mod 10"]
      by (simp add: digits.simps [of n] single_line_def)
  qed
qed

lemma single_line_number: "format_value (PyInt i) = Inr s \<Longrightarrow> single_line s"
  using single_line_digits [of "nat i"] single_line_digits [of "nat (- i)"]
  by (auto simp: str_of_int_def single_line_def newline_def split: if_splits)

lemma single_line_separator: "single_line separator"
  by (simp add: separator_def single_line_def newline_def)

lemma single_line_greeting:
  "single_line (greeting n a) = (single_line n \<and> single_line a)"
  by (auto simp: greeting_def single_line_def newline_def)

lemma single_line_env_line: "single_line (env_line k) = single_line k"
  by (auto simp: env_line_def single_line_def newline_def)

lemma lines_of_separator: "lines_of (separator @ [newline]) = [separator]"
  using lines_of_line [OF single_line_separator, of "[]"] by simp

lemma lines_of_task_output:
  assumes "format_value name = Inr n" "format_value age = Inr a"
    and "single_line n" "single_line a" "single_line (api_key_text w)"
  shows "lines_of (task_output name age w) =
           [greeting n a, separator, env_line (api_key_text w), separator]"
proof -
  have g: "single_line (greeting n a)"
    using assms by (simp add: single_line_greeting)
  have e: "single_line (env_line (api_key_text w))"
    using assms by (simp add: single_line_env_line)
  show ?thesis
    using assms(1,2)
    by (simp add: task_output_eq lines_of_line g e single_line_separator lines_of_separator)
qed

lemma lines_of_task_output_head:
  assumes "format_value name = Inr n" "format_value age = Inr a"
    and "single_line n" "single_line a"
  shows "lines_of (task_output name age w) =
           greeting n a # separator #
           lines_of (env_line (api_key_text w) @ newline # separator @ [newline])"
proof -
  have g: "single_line (greeting n a)"
    using assms by (simp add: single_line_greeting)
  show ?thesis
    using assms(1,2) by (simp add: task_output_eq lines_of_line g single_line_separator)
qed

text \<open>
  The first two lines of the output are fixed by the greeting and the separator alone,
  whatever the greeting contains.
\<close>

lemma first_two_lines:
  assumes "format_value name = Inr n" "format_value age = Inr a"
  shows "take 2 (lines_of (task_output name age w)) =
           take 2 (lines_of (greeting n a @ [newline]) @ [separator])"
proof -
  let ?g = "lines_of (greeting n a @ [newline])"
  let ?r = "lines_of (env_line (api_key_text w) @ newline # separator @ [newline])"
  have "lines_of (task_output name age w) =
      lines_of (greeting n a @ newline # separator @ newline #
        env_line (api_key_text w) @ newline # separator @ [newline])"
    by (simp only: task_output_eq [OF assms])
  also have "\<dots> = ?g @ lines_of (separator @ newline #
        env_line (api_key_text w) @ newline # separator @ [newline])"
    by (rule lines_of_append)
  also have "\<dots> = ?g @ separator # ?r"
    by (simp only: lines_of_line [OF single_line_separator])
  finally have "lines_of (task_output name age w) = ?g @ separator # ?r" .
  moreover have "0 < length ?g"
    using lines_of_ended_nonempty [of "greeting n a"] by simp
  ultimately show ?thesis
    by (cases ?g) (auto simp: take_Cons')
qed

lemma first_two_lines_same:
  "take 2 (lines_of (task_output name age w)) = take 2 (lines_of (task_output name age w'))"
proof (cases "renderable name \<and> renderable age")
  case True
  then have "format_value name = Inr (text_of name)" "format_value age = Inr (text_of age)"
    by (simp_all add: renderable_format)
  then show ?thesis
    by (simp only: first_two_lines)
next
  case False
  then show ?thesis
    by (simp add: task_output_def task_events_raises)
qed

subsection \<open>Concrete renderings\<close>

lemma format_30: "format_value (PyInt 30) = Inr ''30''"
  by (simp add: str_of_int_30)

lemma format_0: "format_value (PyInt 0) = Inr ''0''"
  by (simp add: str_of_int_0)

lemma not_renderable_limit: "\<not> renderable (PyInt (10 ^ max_str_digits))"
  by simp

lemma my_task_at_limit:
  "my_task name (PyInt (10 ^ max_str_digits)) w = (Inl ValueError, w)"
  by (rule my_task_raises) simp

lemma task_events_at_limit: "task_events name (PyInt (10 ^ max_str_digits)) w = []"
  by (rule task_events_raises) simp

lemma task_output_text:
  assumes "format_value name = Inr n" "format_value age = Inr a"
  shows "task_output name age w =
     ''Hello '' @ n @ '' you are '' @ a @ '' years old'' @ [newline] @
     ''--------------------------------'' @ [newline] @
     ''Key from Env: '' @ api_key_text w @ [newline] @
     ''--------------------------------'' @ [newline]"
  by (simp add: task_output_eq [OF assms] greeting_def env_line_def separator_literal)

section \<open>The greeting\<close>

text \<open>
  Claim C1, as amended. For every name and age that render (every value but an integer
  of more than 4300 digits), the first text \<open>my_task\<close> prints is
  \<open>Hello {name} you are {age} years old\<close> with both renderings inserted as they are. It is
  the first line of the output whenever neither rendering contains a line feed.
\<close>

theorem greeting_first:
  assumes "format_value name = Inr n" and "format_value age = Inr a"
  shows "hd (printed (task_events name age w)) =
           ''Hello '' @ n @ '' you are '' @ a @ '' years old''
   \<and> (single_line n \<and> single_line a \<longrightarrow>
        hd (lines_of (task_output name age w)) =
          ''Hello '' @ n @ '' you are '' @ a @ '' years old'')"
proof (intro conjI impI)
  show "hd (printed (task_events name age w)) =
          ''Hello '' @ n @ '' you are '' @ a @ '' years old''"
    by (simp add: printed_task_events [OF assms] greeting_def)
next
  assume "single_line n \<and> single_line a"
  then have "lines_of (task_output name age w) =
      greeting n a # separator #
      lines_of (env_line (api_key_text w) @ newline # separator @ [newline])"
    using assms by (simp add: lines_of_task_output_head)
  then show "hd (lines_of (task_output name age w)) =
      ''Hello '' @ n @ '' you are '' @ a @ '' years old''"
    by (simp add: greeting_def)
qed

theorem greeting_first_witness:
  "format_value (PyStr ''Ada'') = Inr ''Ada'' \<and> format_value (PyInt 30) = Inr ''30'' \<and>
   single_line ''Ada'' \<and> single_line ''30'' \<and>
   hd (printed (task_events (PyStr ''Ada'') (PyInt 30) \<lparr>environ = [], trace = []\<rparr>)) =
     ''Hello Ada you are 30 years old'' \<and>
   hd (lines_of (task_output (PyStr ''Ada'') (PyInt 30) \<lparr>environ = [], trace = []\<rparr>)) =
     ''Hello Ada you are 30 years old''"
proof -
  have n: "format_value (PyStr ''Ada'') = Inr ''Ada''"
    by simp
  have s: "single_line ''Ada''" "single_line ''30''"
    by (simp_all add: single_line_def newline_def)
  show ?thesis
    using greeting_first [OF n format_30, of "\<lparr>environ = [], trace = []\<rparr>"] n format_30 s
    by simp
qed

text \<open>
  With the name \<open>Ada\<newline>Lovelace\<close> the first line of the output is \<open>Hello Ada\<close>, not the
  whole greeting; with the age \<open>10 ^ 4300\<close> the f-string raises and nothing is written.
\<close>

theorem greeting_first_counterexample:
  "hd (lines_of (task_output (PyStr ''Ada\<newline>Lovelace'') (PyInt 30) \<lparr>environ = [], trace = []\<rparr>))
     \<noteq> ''Hello Ada\<newline>Lovelace you are 30 years old''
   \<and> task_output (PyStr ''Ada'') (PyInt (10 ^ 4300)) \<lparr>environ = [], trace = []\<rparr> = []"
proof -
  have n: "format_value (PyStr ''Ada\<newline>Lovelace'') = Inr ''Ada\<newline>Lovelace''"
    by simp
  have a: "hd (lines_of (task_output (PyStr ''Ada\<newline>Lovelace'') (PyInt 30) \<lparr>environ = [], trace = []\<rparr>))
      \<noteq> ''Hello Ada\<newline>Lovelace you are 30 years old''"
    by (simp add: task_output_text [OF n format_30] newline_def)
  have b: "task_output (PyStr ''Ada'') (PyInt (10 ^ max_str_digits)) \<lparr>environ = [], trace = []\<rparr> = []"
    by (simp only: task_output_def task_events_at_limit stdout_text.simps)
  show ?thesis
    by (intro conjI) (rule a, rule b [unfolded max_str_digits_def])
qed

section \<open>The four lines\<close>

text \<open>
  Claim C2, as amended. Every invocation whose name and age render prints exactly four
  texts, in this order: the greeting, the separator, the environment line
  (\<open>Key from Env: \<close> and the rendering of what \<open>os.getenv\<close> returned), the separator; each
  is followed by a line feed and nothing else is written. They are exactly the four
  lines of the output whenever the renderings of the name and of the age and the value
  of \<open>API_KEY\<close> contain no line feed.
\<close>

theorem four_prints:
  assumes "format_value name = Inr n" and "format_value age = Inr a"
  shows "printed (task_events name age w) =
           [greeting n a, separator, env_line (api_key_text w), separator]
   \<and> task_output name age w =
       greeting n a @ [newline] @ separator @ [newline] @
       env_line (api_key_text w) @ [newline] @ separator @ [newline]
   \<and> (single_line n \<and> single_line a \<and> single_line (api_key_text w) \<longrightarrow>
        lines_of (task_output name age w) =
          [greeting n a, separator, env_line (api_key_text w), separator])"
  using assms
  by (simp add: printed_task_events task_output_eq lines_of_task_output [symmetric])

theorem four_prints_witness:
  "format_value (PyStr ''Ada'') = Inr ''Ada'' \<and> format_value (PyInt 30) = Inr ''30'' \<and>
   single_line ''Ada'' \<and> single_line ''30'' \<and> single_line (api_key_text \<lparr>environ = [(''API_KEY'', ''secret123'')], trace = []\<rparr>) \<and>
   lines_of (task_output (PyStr ''Ada'') (PyInt 30) \<lparr>environ = [(''API_KEY'', ''secret123'')], trace = []\<rparr>) =
     [''Hello Ada you are 30 years old'', ''--------------------------------'', ''Key from Env: secret123'', ''--------------------------------'']"
proof -
  have n: "format_value (PyStr ''Ada'') = Inr ''Ada''"
    by simp
  have k: "api_key_text \<lparr>environ = [(''API_KEY'', ''secret123'')], trace = []\<rparr> = ''secret123''"
    by (simp add: api_key_text_set)
  have s: "single_line ''Ada''" "single_line ''30''" "single_line (api_key_text \<lparr>environ = [(''API_KEY'', ''secret123'')], trace = []\<rparr>)"
    by (simp_all add: k single_line_def newline_def)
  have "lines_of (task_output (PyStr ''Ada'') (PyInt 30) \<lparr>environ = [(''API_KEY'', ''secret123'')], trace = []\<rparr>) =
      [greeting ''Ada'' ''30'', separator, env_line (api_key_text \<lparr>environ = [(''API_KEY'', ''secret123'')], trace = []\<rparr>), separator]"
    using four_prints [OF n format_30, of "\<lparr>environ = [(''API_KEY'', ''secret123'')], trace = []\<rparr>"] s by blast
  then show ?thesis
    using n format_30 s by (simp add: k greeting_def env_line_def separator_literal)
qed

text \<open>
  With the age given as the text \<open>thirty\<newline>one\<close> the output has five lines; with the
  age \<open>10 ^ 4300\<close> nothing is printed.
\<close>

theorem four_lines_counterexample:
  "lines_of (task_output (PyStr ''Ada'') (PyStr ''thirty\<newline>one'') \<lparr>environ = [], trace = []\<rparr>) =
     [''Hello Ada you are thirty'', ''one years old'', ''--------------------------------'', ''Key from Env: None'', ''--------------------------------'']
   \<and> printed (task_events (PyStr ''Grace'') (PyInt (10 ^ 4300)) \<lparr>environ = [], trace = []\<rparr>) = []"
proof -
  have a: "lines_of (task_output (PyStr ''Ada'') (PyStr ''thirty\<newline>one'') \<lparr>environ = [], trace = []\<rparr>) =
     [''Hello Ada you are thirty'', ''one years old'', ''--------------------------------'', ''Key from Env: None'', ''--------------------------------'']"
    by (simp add: task_output_text api_key_text_unset newline_def)
  have b: "printed (task_events (PyStr ''Grace'') (PyInt (10 ^ max_str_digits)) \<lparr>environ = [], trace = []\<rparr>) = []"
    by (simp only: task_events_at_limit printed.simps)
  show ?thesis
    by (intro conjI) (rule a, rule b [unfolded max_str_digits_def])
qed

section \<open>The environment line\<close>

text \<open>
  Claim C3, as amended. When \<open>API_KEY\<close> is set to \<open>V\<close> and the name and the age render,
  the third text printed is \<open>Key from Env: V\<close>; it is the third line of the output
  whenever \<open>V\<close> and the renderings of the name and of the age contain no line feed.
\<close>

theorem api_key_set_line:
  assumes "map_of (environ w) ''API_KEY'' = Some v"
    and "format_value name = Inr n" and "format_value age = Inr a"
  shows "printed (task_events name age w) ! 2 = ''Key from Env: '' @ v
   \<and> (single_line n \<and> single_line a \<and> single_line v \<longrightarrow>
        lines_of (task_output name age w) ! 2 = ''Key from Env: '' @ v)"
proof -
  have k: "api_key_text w = v"
    using assms(1) by (rule api_key_text_set)
  show ?thesis
    using assms(2,3)
    by (simp add: printed_task_events lines_of_task_output k env_line_def)
qed

theorem api_key_set_line_witness:
  "map_of (environ \<lparr>environ = [(''API_KEY'', ''secret123'')], trace = []\<rparr>) ''API_KEY'' = Some ''secret123'' \<and>
   format_value (PyStr ''Ada'') = Inr ''Ada'' \<and> format_value (PyInt 30) = Inr ''30'' \<and>
   single_line ''Ada'' \<and> single_line ''30'' \<and> single_line ''secret123'' \<and>
   printed (task_events (PyStr ''Ada'') (PyInt 30) \<lparr>environ = [(''API_KEY'', ''secret123'')], trace = []\<rparr>) ! 2 = ''Key from Env: secret123'' \<and>
   lines_of (task_output (PyStr ''Ada'') (PyInt 30) \<lparr>environ = [(''API_KEY'', ''secret123'')], trace = []\<rparr>) ! 2 = ''Key from Env: secret123''"
proof -
  have e: "map_of (environ \<lparr>environ = [(''API_KEY'', ''secret123'')], trace = []\<rparr>) ''API_KEY'' = Some ''secret123''"
    by simp
  have n: "format_value (PyStr ''Ada'') = Inr ''Ada''"
    by simp
  have s: "single_line ''Ada''" "single_line ''30''" "single_line ''secret123''"
    by (simp_all add: single_line_def newline_def)
  show ?thesis
    using api_key_set_line [OF e n format_30] e n format_30 s
    by simp
qed

text \<open>
  With \<open>API_KEY\<close> set to \<open>secret\<newline>123\<close> the third line of the output is
  \<open>Key from Env: secret\<close>; with the age \<open>10 ^ 4300\<close> no text is printed at all.
\<close>

theorem api_key_set_line_counterexample:
  "lines_of (task_output (PyStr ''Ada'') (PyInt 30)
       \<lparr>environ = [(''API_KEY'', ''secret\<newline>123'')], trace = []\<rparr>) ! 2
     \<noteq> ''Key from Env: secret\<newline>123''
   \<and> printed (task_events (PyStr ''Ada'') (PyInt (10 ^ 4300)) \<lparr>environ = [(''API_KEY'', ''secret123'')], trace = []\<rparr>) = []"
proof -
  have n: "format_value (PyStr ''Ada'') = Inr ''Ada''"
    by simp
  have a: "lines_of (task_output (PyStr ''Ada'') (PyInt 30)
       \<lparr>environ = [(''API_KEY'', ''secret\<newline>123'')], trace = []\<rparr>) ! 2
     \<noteq> ''Key from Env: secret\<newline>123''"
    by (simp add: task_output_text [OF n format_30] api_key_text_set newline_def)
  have b: "printed (task_events (PyStr ''Ada'') (PyInt (10 ^ max_str_digits)) \<lparr>environ = [(''API_KEY'', ''secret123'')], trace = []\<rparr>) = []"
    by (simp only: task_events_at_limit printed.simps)
  show ?thesis
    by (intro conjI) (rule a, rule b [unfolded max_str_digits_def])
qed

text \<open>
  Claim C4, as amended. When \<open>API_KEY\<close> is not set and the name and the age render, the
  call raises no error, returns \<open>None\<close>, and the third text printed is
  \<open>Key from Env: None\<close>; it is the third line of the output whenever the renderings of the
  name and of the age contain no line feed.
\<close>

theorem api_key_unset_line:
  assumes "map_of (environ w) ''API_KEY'' = None"
    and "format_value name = Inr n" and "format_value age = Inr a"
  shows "fst (my_task name age w) = Inr PyNone
   \<and> printed (task_events name age w) ! 2 = ''Key from Env: None''
   \<and> (single_line n \<and> single_line a \<longrightarrow>
        lines_of (task_output name age w) ! 2 = ''Key from Env: None'')"
proof -
  have k: "api_key_text w = ''None''"
    using assms(1) by (rule api_key_text_unset)
  have s: "single_line (api_key_text w)"
    by (simp add: k single_line_def newline_def)
  show ?thesis
    using assms(2,3) s
    by (simp add: my_task_run printed_task_events lines_of_task_output env_line_def k)
qed

theorem api_key_unset_line_witness:
  "map_of (environ \<lparr>environ = [], trace = []\<rparr>) ''API_KEY'' = None \<and>
   format_value (PyStr []) = Inr [] \<and> format_value (PyInt 0) = Inr ''0'' \<and>
   single_line [] \<and> single_line ''0'' \<and>
   fst (my_task (PyStr []) (PyInt 0) \<lparr>environ = [], trace = []\<rparr>) = Inr PyNone \<and>
   printed (task_events (PyStr []) (PyInt 0) \<lparr>environ = [], trace = []\<rparr>) ! 2 = ''Key from Env: None'' \<and>
   lines_of (task_output (PyStr []) (PyInt 0) \<lparr>environ = [], trace = []\<rparr>) ! 2 = ''Key from Env: None''"
proof -
  have e: "map_of (environ \<lparr>environ = [], trace = []\<rparr>) ''API_KEY'' = None"
    by simp
  have n: "format_value (PyStr []) = Inr []"
    by simp
  have s: "single_line []" "single_line ''0''"
    by (simp_all add: single_line_def newline_def)
  show ?thesis
    using api_key_unset_line [OF e n format_0] e n format_0 s
    by simp
qed

text \<open>
  With the name \<open>a\<newline>b\<close> and \<open>API_KEY\<close> not set, the third line of the output is the
  separator; with the age \<open>- (10 ^ 4300)\<close> and \<open>API_KEY\<close> not set, the call raises
  \<open>ValueError\<close>.
\<close>

theorem api_key_unset_line_counterexample:
  "lines_of (task_output (PyStr ''a\<newline>b'') (PyInt 0) \<lparr>environ = [], trace = []\<rparr>) ! 2 \<noteq> ''Key from Env: None''
   \<and> fst (my_task (PyStr []) (PyInt (- (10 ^ 4300))) \<lparr>environ = [], trace = []\<rparr>) = Inl ValueError"
proof -
  have n: "format_value (PyStr ''a\<newline>b'') = Inr ''a\<newline>b''"
    by simp
  have a: "lines_of (task_output (PyStr ''a\<newline>b'') (PyInt 0) \<lparr>environ = [], trace = []\<rparr>) ! 2
      \<noteq> ''Key from Env: None''"
    by (simp add: task_output_text [OF n format_0] api_key_text_unset newline_def)
  have "\<not> (renderable (PyStr []) \<and> renderable (PyInt (- (10 ^ max_str_digits))))"
    by simp
  then have b: "fst (my_task (PyStr []) (PyInt (- (10 ^ max_str_digits))) \<lparr>environ = [], trace = []\<rparr>) = Inl ValueError"
    by (simp add: my_task_raises)
  show ?thesis
    by (intro conjI) (rule a, rule b [unfolded max_str_digits_def])
qed

section \<open>The separator\<close>

text \<open>
  Claim C5, as amended. In every invocation whose name and age render, the second and
  the fourth text printed are the same fixed sequence of dashes, the separator is printed
  exactly twice, and the environment line is printed between the two. The separator is
  the second line of the output whenever the renderings of the name and of the age
  contain no line feed; it is also the fourth line, and the environment line the third,
  whenever in addition the value of \<open>API_KEY\<close> contains no line feed.
\<close>

theorem separator_twice:
  assumes "format_value name = Inr n" and "format_value age = Inr a"
  shows "printed (task_events name age w) ! 1 = separator
   \<and> printed (task_events name age w) ! 3 = separator
   \<and> printed (task_events name age w) ! 2 = env_line (api_key_text w)
   \<and> count_list (printed (task_events name age w)) separator = 2
   \<and> separator = ''--------------------------------''
   \<and> (single_line n \<and> single_line a \<longrightarrow>
         lines_of (task_output name age w) ! 1 = separator
       \<and> (single_line (api_key_text w) \<longrightarrow>
            lines_of (task_output name age w) ! 3 = separator
          \<and> lines_of (task_output name age w) ! 2 = env_line (api_key_text w)
          \<and> count_list (lines_of (task_output name age w)) separator = 2))"
proof (intro conjI impI)
  assume "single_line n \<and> single_line a"
  then show "lines_of (task_output name age w) ! 1 = separator"
    using assms by (simp add: lines_of_task_output_head)
next
  assume "single_line n \<and> single_line a" and "single_line (api_key_text w)"
  then have l: "lines_of (task_output name age w) =
      [greeting n a, separator, env_line (api_key_text w), separator]"
    using assms by (simp add: lines_of_task_output)
  show "lines_of (task_output name age w) ! 3 = separator"
    and "lines_of (task_output name age w) ! 2 = env_line (api_key_text w)"
    and "count_list (lines_of (task_output name age w)) separator = 2"
    by (simp_all add: l greeting_not_separator env_line_not_separator)
qed (simp_all add: printed_task_events [OF assms] greeting_not_separator
    env_line_not_separator separator_literal)

theorem separator_twice_witness:
  "format_value (PyStr ''Ada'') = Inr ''Ada'' \<and> format_value (PyInt 30) = Inr ''30'' \<and>
   single_line ''Ada'' \<and> single_line ''30'' \<and> single_line (api_key_text \<lparr>environ = [], trace = []\<rparr>) \<and>
   count_list (printed (task_events (PyStr ''Ada'') (PyInt 30) \<lparr>environ = [], trace = []\<rparr>)) ''--------------------------------'' = 2 \<and>
   lines_of (task_output (PyStr ''Ada'') (PyInt 30) \<lparr>environ = [], trace = []\<rparr>) ! 1 = ''--------------------------------'' \<and>
   lines_of (task_output (PyStr ''Ada'') (PyInt 30) \<lparr>environ = [], trace = []\<rparr>) ! 3 = ''--------------------------------'' \<and>
   lines_of (task_output (PyStr ''Ada'') (PyInt 30) \<lparr>environ = [], trace = []\<rparr>) ! 2 = ''Key from Env: None''"
proof -
  have n: "format_value (PyStr ''Ada'') = Inr ''Ada''"
    by simp
  have k: "api_key_text \<lparr>environ = [], trace = []\<rparr> = ''None''"
    by (simp add: api_key_text_unset)
  have s: "single_line ''Ada''" "single_line ''30''" "single_line (api_key_text \<lparr>environ = [], trace = []\<rparr>)"
    by (simp_all add: k single_line_def newline_def)
  have "count_list (printed (task_events (PyStr ''Ada'') (PyInt 30) \<lparr>environ = [], trace = []\<rparr>)) separator = 2
      \<and> lines_of (task_output (PyStr ''Ada'') (PyInt 30) \<lparr>environ = [], trace = []\<rparr>) ! 1 = separator
      \<and> lines_of (task_output (PyStr ''Ada'') (PyInt 30) \<lparr>environ = [], trace = []\<rparr>) ! 3 = separator
      \<and> lines_of (task_output (PyStr ''Ada'') (PyInt 30) \<lparr>environ = [], trace = []\<rparr>) ! 2 = env_line (api_key_text \<lparr>environ = [], trace = []\<rparr>)"
    using separator_twice [OF n format_30, of "\<lparr>environ = [], trace = []\<rparr>"] s by blast
  then show ?thesis
    using n format_30 s by (simp add: k env_line_def separator_literal)
qed

text \<open>
  With the name \<open>x\<newline>y\<close> the second line of the output is \<open>y you are 30 years old\<close>;
  with \<open>API_KEY\<close> set to \<open>k1\<newline>k2\<close> the fourth line is \<open>k2\<close>; with the age \<open>10 ^ 4300\<close> the
  separator is not printed.
\<close>

theorem separator_twice_counterexample:
  "lines_of (task_output (PyStr ''x\<newline>y'') (PyInt 30) \<lparr>environ = [], trace = []\<rparr>) ! 1 \<noteq> ''--------------------------------''
   \<and> lines_of (task_output (PyStr ''Ada'') (PyInt 30)
        \<lparr>environ = [(''API_KEY'', ''k1\<newline>k2'')], trace = []\<rparr>) ! 3 \<noteq> ''--------------------------------''
   \<and> count_list (printed (task_events (PyStr ''x'') (PyInt (10 ^ 4300)) \<lparr>environ = [], trace = []\<rparr>)) ''--------------------------------'' = 0"
proof -
  have n: "format_value (PyStr ''x\<newline>y'') = Inr ''x\<newline>y''"
    and m: "format_value (PyStr ''Ada'') = Inr ''Ada''"
    by simp_all
  have a: "lines_of (task_output (PyStr ''x\<newline>y'') (PyInt 30) \<lparr>environ = [], trace = []\<rparr>) ! 1 \<noteq> ''--------------------------------''"
    by (simp add: task_output_text [OF n format_30] api_key_text_unset newline_def)
  have b: "lines_of (task_output (PyStr ''Ada'') (PyInt 30)
        \<lparr>environ = [(''API_KEY'', ''k1\<newline>k2'')], trace = []\<rparr>) ! 3 \<noteq> ''--------------------------------''"
    by (simp add: task_output_text [OF m format_30] api_key_text_set newline_def)
  have c: "count_list (printed (task_events (PyStr ''x'') (PyInt (10 ^ max_str_digits)) \<lparr>environ = [], trace = []\<rparr>))
      ''--------------------------------'' = 0"
    by (simp only: task_events_at_limit printed.simps count_list.simps)
  show ?thesis
    by (intro conjI) (rule a, rule b, rule c [unfolded max_str_digits_def])
qed

text \<open>
  Claim C9. The separator printed by \<open>my_task\<close>, as its second and as its fourth text, is
  32 dash characters, whatever the name, the age and the world are, in every invocation
  that prints (one whose name and age render).
\<close>

theorem separator_32_dashes:
  assumes "renderable name" and "renderable age"
  shows "printed (task_events name age w) ! 1 = replicate 32 (CHR ''-'')
   \<and> printed (task_events name age w) ! 3 = replicate 32 (CHR ''-'')
   \<and> length (printed (task_events name age w) ! 1) = 32
   \<and> length (printed (task_events name age w)) = 4"
  using assms
  by (simp add: printed_task_events [OF renderable_format renderable_format] separator_def)

theorem separator_32_dashes_witness:
  "renderable (PyStr ''Ada'') \<and> renderable (PyInt 30) \<and>
   printed (task_events (PyStr ''Ada'') (PyInt 30) \<lparr>environ = [(''API_KEY'', ''secret123'')], trace = []\<rparr>) ! 1 = replicate 32 (CHR ''-'') \<and>
   printed (task_events (PyStr ''Ada'') (PyInt 30) \<lparr>environ = [(''API_KEY'', ''secret123'')], trace = []\<rparr>) ! 3 = replicate 32 (CHR ''-'')"
proof -
  have n: "renderable (PyStr ''Ada'')"
    by simp
  have a: "renderable (PyInt 30)"
    using small_below_limit [of 30] by simp
  show ?thesis
    using separator_32_dashes [OF n a, of "\<lparr>environ = [(''API_KEY'', ''secret123'')], trace = []\<rparr>"] n a by blast
qed

section \<open>The scenario of the specification\<close>

text \<open>
  Claim C6. With the name \<open>Ada\<close>, the age \<open>30\<close> and \<open>API_KEY\<close> set to \<open>secret123\<close>, the
  output is exactly the four lines \<open>Hello Ada you are 30 years old\<close>, 32 dashes,
  \<open>Key from Env: secret123\<close>, 32 dashes, each ended by a line feed.
\<close>

theorem ada_scenario:
  assumes "map_of (environ w) ''API_KEY'' = Some ''secret123''"
  shows "task_output (PyStr ''Ada'') (PyInt 30) w =
           ''Hello Ada you are 30 years old\<newline>--------------------------------\<newline>Key from Env: secret123\<newline>--------------------------------\<newline>''
       \<and> lines_of (task_output (PyStr ''Ada'') (PyInt 30) w) =
           [''Hello Ada you are 30 years old'', ''--------------------------------'', ''Key from Env: secret123'', ''--------------------------------'']"
proof -
  have n: "format_value (PyStr ''Ada'') = Inr ''Ada''"
    by simp
  have k: "api_key_text w = ''secret123''"
    using assms by (rule api_key_text_set)
  have t: "task_output (PyStr ''Ada'') (PyInt 30) w =
           ''Hello Ada you are 30 years old\<newline>--------------------------------\<newline>Key from Env: secret123\<newline>--------------------------------\<newline>''"
    by (simp add: task_output_text [OF n format_30] k newline_def)
  have l: "lines_of ''Hello Ada you are 30 years old\<newline>--------------------------------\<newline>Key from Env: secret123\<newline>--------------------------------\<newline>'' =
           [''Hello Ada you are 30 years old'', ''--------------------------------'', ''Key from Env: secret123'', ''--------------------------------'']"
    by code_simp
  show ?thesis
    by (simp only: t l)
qed

theorem ada_scenario_witness:
  "map_of (environ \<lparr>environ = [(''API_KEY'', ''secret123'')], trace = []\<rparr>) ''API_KEY'' = Some ''secret123'' \<and>
   task_output (PyStr ''Ada'') (PyInt 30) \<lparr>environ = [(''API_KEY'', ''secret123'')], trace = []\<rparr> =
     ''Hello Ada you are 30 years old\<newline>--------------------------------\<newline>Key from Env: secret123\<newline>--------------------------------\<newline>'' \<and>
   lines_of (task_output (PyStr ''Ada'') (PyInt 30) \<lparr>environ = [(''API_KEY'', ''secret123'')], trace = []\<rparr>) =
     [''Hello Ada you are 30 years old'', ''--------------------------------'', ''Key from Env: secret123'', ''--------------------------------'']"
proof -
  have e: "map_of (environ \<lparr>environ = [(''API_KEY'', ''secret123'')], trace = []\<rparr>) ''API_KEY'' = Some ''secret123''"
    by simp
  show ?thesis
    using ada_scenario [OF e] e by blast
qed

section \<open>Result and frame\<close>

text \<open>
  Claim C7, as amended. For every name and age that render, that is every text, boolean
  and \<open>None\<close> and every integer of at most 4300 digits, and for every world, with
  \<open>API_KEY\<close> set or not, \<open>my_task\<close> raises no error and returns \<open>None\<close>, having printed its
  four texts with the renderings inserted as they are; a text renders as itself. For any
  other input the call raises \<open>ValueError\<close>.
\<close>

theorem my_task_outcome:
  "fst (my_task name age w) =
     (if renderable name \<and> renderable age then Inr PyNone else Inl ValueError)
   \<and> (renderable name \<and> renderable age \<longrightarrow>
        printed (task_events name age w) =
          [''Hello '' @ text_of name @ '' you are '' @ text_of age @ '' years old'',
           ''--------------------------------'', ''Key from Env: '' @ api_key_text w, ''--------------------------------''])
   \<and> renderable (PyStr s) \<and> text_of (PyStr s) = s"
proof (intro conjI impI)
  show "fst (my_task name age w) =
     (if renderable name \<and> renderable age then Inr PyNone else Inl ValueError)"
  proof (cases "renderable name \<and> renderable age")
    case True
    then show ?thesis
      by (simp add: my_task_run [OF renderable_format renderable_format])
  next
    case False
    then show ?thesis
      by (simp add: my_task_raises)
  qed
next
  assume "renderable name \<and> renderable age"
  then show "printed (task_events name age w) =
          [''Hello '' @ text_of name @ '' you are '' @ text_of age @ '' years old'',
           ''--------------------------------'', ''Key from Env: '' @ api_key_text w, ''--------------------------------'']"
    by (simp add: printed_task_events [OF renderable_format renderable_format]
        greeting_def env_line_def separator_literal)
qed (simp_all add: text_of_def)

theorem my_task_outcome_witness:
  "renderable (PyStr []) \<and> renderable (PyInt 0) \<and>
   fst (my_task (PyStr []) (PyInt 0) \<lparr>environ = [], trace = []\<rparr>) = Inr PyNone \<and>
   printed (task_events (PyStr []) (PyInt 0) \<lparr>environ = [], trace = []\<rparr>) =
     [''Hello  you are 0 years old'', ''--------------------------------'', ''Key from Env: None'', ''--------------------------------'']"
proof -
  have n: "renderable (PyStr [])"
    by simp
  have a: "renderable (PyInt 0)"
    by simp
  have t: "text_of (PyStr []) = []" "text_of (PyInt 0) = ''0''" "api_key_text \<lparr>environ = [], trace = []\<rparr> = ''None''"
    by (simp_all add: text_of_def str_of_int_0 api_key_text_unset)
  have "fst (my_task (PyStr []) (PyInt 0) \<lparr>environ = [], trace = []\<rparr>) = Inr PyNone \<and>
      printed (task_events (PyStr []) (PyInt 0) \<lparr>environ = [], trace = []\<rparr>) =
        [''Hello '' @ text_of (PyStr []) @ '' you are '' @ text_of (PyInt 0) @ '' years old'',
         ''--------------------------------'', ''Key from Env: '' @ api_key_text \<lparr>environ = [], trace = []\<rparr>, ''--------------------------------'']"
    using my_task_outcome [of "PyStr []" "PyInt 0" "\<lparr>environ = [], trace = []\<rparr>"] n a by presburger
  then show ?thesis
    using n a by (simp add: t)
qed

text \<open>With the age \<open>10 ^ 4300\<close>, an integer of 4301 digits, the call raises \<open>ValueError\<close>.\<close>

theorem my_task_outcome_counterexample:
  "fst (my_task (PyStr ''Ada'') (PyInt (10 ^ 4300)) \<lparr>environ = [(''API_KEY'', ''secret123'')], trace = []\<rparr>) = Inl ValueError"
proof -
  have b: "fst (my_task (PyStr ''Ada'') (PyInt (10 ^ max_str_digits)) \<lparr>environ = [(''API_KEY'', ''secret123'')], trace = []\<rparr>) = Inl ValueError"
    by (simp only: my_task_at_limit fst_conv)
  show ?thesis
    by (rule b [unfolded max_str_digits_def])
qed

text \<open>
  Claim C8. An invocation changes the world only by appending its own calls to the trace:
  the environment and every other component of the world are as before. Its calls are
  four prints and a single read of the environment, of the variable \<open>API_KEY\<close>; when the
  f-string of the greeting raises, there is no call at all. The parameters are values
  and cannot change.
\<close>

theorem my_task_frame:
  "snd (my_task name age w) = w\<lparr>trace := trace w @ task_events name age w\<rparr>
   \<and> environ (snd (my_task name age w)) = environ w
   \<and> world.more (snd (my_task name age w)) = world.more w
   \<and> env_reads (task_events name age w) =
       (if renderable name \<and> renderable age then [''API_KEY''] else [])
   \<and> length (printed (task_events name age w)) =
       (if renderable name \<and> renderable age then 4 else 0)
   \<and> length (task_events name age w) =
       (if renderable name \<and> renderable age then 5 else 0)"
proof (cases "renderable name \<and> renderable age")
  case True
  then have f: "format_value name = Inr (text_of name)" "format_value age = Inr (text_of age)"
    by (simp_all add: renderable_format)
  show ?thesis
    using True by (simp add: task_events_eq [OF f] my_task_run [OF f])
next
  case False
  then show ?thesis
    by (simp add: task_events_raises my_task_raises)
qed

section \<open>Determinism\<close>

text \<open>
  Claim C10, as amended. Two invocations with the same name, the same age and the same
  state of \<open>API_KEY\<close> have the same outcome, make the same calls and write the same
  output, whatever else differs between the two worlds. With the same name and age, the
  first, second and fourth text printed are the same even when \<open>API_KEY\<close> differs, and so
  are the first and the second line of the output. The fourth line of the output is the
  same whenever the renderings of the name and of the age and the value of \<open>API_KEY\<close> in
  either world contain no line feed.
\<close>

theorem output_determined:
  "(api_key w = api_key w' \<longrightarrow>
      fst (my_task name age w) = fst (my_task name age w')
    \<and> task_events name age w = task_events name age w'
    \<and> task_output name age w = task_output name age w')
   \<and> printed (task_events name age w) ! 0 = printed (task_events name age w') ! 0
   \<and> printed (task_events name age w) ! 1 = printed (task_events name age w') ! 1
   \<and> printed (task_events name age w) ! 3 = printed (task_events name age w') ! 3
   \<and> lines_of (task_output name age w) ! 0 = lines_of (task_output name age w') ! 0
   \<and> lines_of (task_output name age w) ! 1 = lines_of (task_output name age w') ! 1
   \<and> (single_line (text_of name) \<and> single_line (text_of age) \<and>
       single_line (api_key_text w) \<and> single_line (api_key_text w') \<longrightarrow>
        lines_of (task_output name age w) ! 3 = lines_of (task_output name age w') ! 3)"
proof (cases "renderable name \<and> renderable age")
  case True
  then have f: "format_value name = Inr (text_of name)" "format_value age = Inr (text_of age)"
    by (simp_all add: renderable_format)
  have t: "take 2 (lines_of (task_output name age w)) =
      take 2 (lines_of (task_output name age w'))"
    by (rule first_two_lines_same)
  have "take 2 (lines_of (task_output name age w)) ! 0 =
      take 2 (lines_of (task_output name age w')) ! 0"
    and "take 2 (lines_of (task_output name age w)) ! 1 =
      take 2 (lines_of (task_output name age w')) ! 1"
    by (simp_all only: t)
  then have l: "lines_of (task_output name age w) ! 0 = lines_of (task_output name age w') ! 0"
    "lines_of (task_output name age w) ! 1 = lines_of (task_output name age w') ! 1"
    by simp_all
  have k: "api_key_text w = api_key_text w'" if "api_key w = api_key w'"
    using that by (simp add: api_key_text_def)
  have e: "fst (my_task name age w) = fst (my_task name age w')
      \<and> task_events name age w = task_events name age w'
      \<and> task_output name age w = task_output name age w'" if "api_key w = api_key w'"
    using k [OF that]
    by (simp add: my_task_run [OF f] task_events_eq [OF f] task_output_eq [OF f])
  have p: "printed (task_events name age w) ! 0 = printed (task_events name age w') ! 0"
    "printed (task_events name age w) ! 1 = printed (task_events name age w') ! 1"
    "printed (task_events name age w) ! 3 = printed (task_events name age w') ! 3"
    by (simp_all add: printed_task_events [OF f])
  have q: "lines_of (task_output name age w) ! 3 = lines_of (task_output name age w') ! 3"
    if "single_line (text_of name) \<and> single_line (text_of age) \<and>
        single_line (api_key_text w) \<and> single_line (api_key_text w')"
    using that by (simp add: lines_of_task_output [OF f])
  show ?thesis
    using l e p q by blast
next
  case False
  then show ?thesis
    by (simp add: my_task_raises task_events_raises task_output_def)
qed

theorem output_determined_witness:
  "api_key \<lparr>environ = [(''API_KEY'', ''secret123'')], trace = []\<rparr> = api_key \<lparr>environ = [(''HOME'', ''/root''), (''API_KEY'', ''secret123'')], trace = [Print ''earlier'']\<rparr> \<and>
   task_output (PyStr ''Ada'') (PyInt 30) \<lparr>environ = [(''API_KEY'', ''secret123'')], trace = []\<rparr> = task_output (PyStr ''Ada'') (PyInt 30) \<lparr>environ = [(''HOME'', ''/root''), (''API_KEY'', ''secret123'')], trace = [Print ''earlier'']\<rparr> \<and>
   api_key \<lparr>environ = [], trace = []\<rparr> \<noteq> api_key \<lparr>environ = [(''API_KEY'', ''secret123'')], trace = []\<rparr> \<and>
   single_line (text_of (PyStr ''Ada'')) \<and> single_line (text_of (PyInt 30)) \<and>
   single_line (api_key_text \<lparr>environ = [], trace = []\<rparr>) \<and> single_line (api_key_text \<lparr>environ = [(''API_KEY'', ''secret123'')], trace = []\<rparr>) \<and>
   lines_of (task_output (PyStr ''Ada'') (PyInt 30) \<lparr>environ = [], trace = []\<rparr>) ! 0 =
     lines_of (task_output (PyStr ''Ada'') (PyInt 30) \<lparr>environ = [(''API_KEY'', ''secret123'')], trace = []\<rparr>) ! 0 \<and>
   lines_of (task_output (PyStr ''Ada'') (PyInt 30) \<lparr>environ = [], trace = []\<rparr>) ! 1 =
     lines_of (task_output (PyStr ''Ada'') (PyInt 30) \<lparr>environ = [(''API_KEY'', ''secret123'')], trace = []\<rparr>) ! 1 \<and>
   lines_of (task_output (PyStr ''Ada'') (PyInt 30) \<lparr>environ = [], trace = []\<rparr>) ! 3 =
     lines_of (task_output (PyStr ''Ada'') (PyInt 30) \<lparr>environ = [(''API_KEY'', ''secret123'')], trace = []\<rparr>) ! 3"
proof -
  have k: "api_key \<lparr>environ = [(''API_KEY'', ''secret123'')], trace = []\<rparr> = api_key \<lparr>environ = [(''HOME'', ''/root''), (''API_KEY'', ''secret123'')], trace = [Print ''earlier'']\<rparr>"
    by (simp add: api_key_set)
  have d: "api_key \<lparr>environ = [], trace = []\<rparr> \<noteq> api_key \<lparr>environ = [(''API_KEY'', ''secret123'')], trace = []\<rparr>"
    by (simp add: api_key_set api_key_unset)
  have s: "single_line (text_of (PyStr ''Ada''))" "single_line (text_of (PyInt 30))"
    "single_line (api_key_text \<lparr>environ = [], trace = []\<rparr>)" "single_line (api_key_text \<lparr>environ = [(''API_KEY'', ''secret123'')], trace = []\<rparr>)"
    by (simp_all add: text_of_def str_of_int_30 api_key_text_set api_key_text_unset
        single_line_def newline_def)
  show ?thesis
    using output_determined [of "\<lparr>environ = [(''API_KEY'', ''secret123'')], trace = []\<rparr>" "\<lparr>environ = [(''HOME'', ''/root''), (''API_KEY'', ''secret123'')], trace = [Print ''earlier'']\<rparr>" "PyStr ''Ada''" "PyInt 30"]
      output_determined [of "\<lparr>environ = [], trace = []\<rparr>" "\<lparr>environ = [(''API_KEY'', ''secret123'')], trace = []\<rparr>" "PyStr ''Ada''" "PyInt 30"] k d s
    by blast
qed

text \<open>
  With \<open>API_KEY\<close> not set in one world and set to \<open>x\<newline>y\<close> in the other, the fourth line
  of the output is the separator in the first and \<open>y\<close> in the second. With the name
  \<open>Ada\<newline>Lovelace\<close> the fourth line is the environment line, which differs with \<open>API_KEY\<close>.
\<close>

theorem output_determined_counterexample:
  "lines_of (task_output (PyStr ''Ada'') (PyInt 30) \<lparr>environ = [], trace = []\<rparr>) ! 3
     \<noteq> lines_of (task_output (PyStr ''Ada'') (PyInt 30)
           \<lparr>environ = [(''API_KEY'', ''x\<newline>y'')], trace = []\<rparr>) ! 3
   \<and> lines_of (task_output (PyStr ''Ada\<newline>Lovelace'') (PyInt 30) \<lparr>environ = [], trace = []\<rparr>) ! 3
     \<noteq> lines_of (task_output (PyStr ''Ada\<newline>Lovelace'') (PyInt 30) \<lparr>environ = [(''API_KEY'', ''secret123'')], trace = []\<rparr>) ! 3"
proof -
  have n: "format_value (PyStr ''Ada'') = Inr ''Ada''"
    and m: "format_value (PyStr ''Ada\<newline>Lovelace'') = Inr ''Ada\<newline>Lovelace''"
    by simp_all
  show ?thesis
    by (simp add: task_output_text [OF n format_30] task_output_text [OF m format_30]
        api_key_text_set api_key_text_unset newline_def)
qed

end
